theory Spec2Isabelle
  imports Complex_Main
begin

section \<open>The countdown of script.js\<close>

text \<open>
  The script holds one function of interest, \<^verbatim>\<open>updateCountdown\<close>, run once at load
  and then once a second by \<^verbatim>\<open>setInterval\<close>. Both copies of the script in the
  source differ only in the date literal, which is a parameter here.

  Instants are epoch milliseconds as \<^verbatim>\<open>Date.prototype.getTime\<close> returns them:
  integers of magnitude at most 8.64e15, below 2^53. On such values the subtraction
  and the remainder of JavaScript numbers are exact, and the floor of the rounded
  quotient by a positive integer constant is the floor of the exact quotient, so
  instants and distances are modelled as \<^typ>\<open>int\<close> and quotients as \<^typ>\<open>real\<close>.
\<close>

subsection \<open>Arithmetic of JavaScript numbers on integers\<close>

text \<open>
  The operator \<^verbatim>\<open>%\<close>: the result has the sign of the dividend and the magnitude of
  the remainder of the magnitudes. (The divisors of the script are positive
  constants; a zero divisor, which gives NaN in JavaScript, does not occur.)
\<close>

definition js_rem :: "int \<Rightarrow> int \<Rightarrow> int" where
  "js_rem a b = sgn a * (\<bar>a\<bar> mod \<bar>b\<bar>)"

text \<open>\<^verbatim>\<open>Math.floor\<close>: the greatest integer not above its argument.\<close>

definition Math_floor :: "real \<Rightarrow> int" where
  "Math_floor x = \<lfloor>x\<rfloor>"

subsection \<open>The remaining time (lines 12 to 19, and the test of line 34)\<close>

definition distance :: "int \<Rightarrow> int \<Rightarrow> int" where
  "distance countdownDate now = countdownDate - now"

definition days :: "int \<Rightarrow> int" where
  "days d = Math_floor (of_int d / (1000 * 60 * 60 * 24))"

definition hours :: "int \<Rightarrow> int" where
  "hours d = Math_floor (of_int (js_rem d (1000 * 60 * 60 * 24)) / (1000 * 60 * 60))"

definition minutes :: "int \<Rightarrow> int" where
  "minutes d = Math_floor (of_int (js_rem d (1000 * 60 * 60)) / (1000 * 60))"

definition seconds :: "int \<Rightarrow> int" where
  "seconds d = Math_floor (of_int (js_rem d (1000 * 60)) / 1000)"

text \<open>The condition of line 34, under which the countdown ends.\<close>

definition expired :: "int \<Rightarrow> bool" where
  "expired d = (d < 0)"

subsection \<open>Formatting: \<^verbatim>\<open>toString().padStart(2, "0")\<close>\<close>

definition digit_char :: "nat \<Rightarrow> char" where
  "digit_char d = ''0123456789'' ! d"

text \<open>The decimal digits of a natural number, most significant first.\<close>

function nat_digits :: "nat \<Rightarrow> string" where
  "nat_digits n = (if n < 10 then [digit_char n] else nat_digits (n div 10) @ [digit_char (n mod 10)])"
  by pat_completeness auto
termination
  by (relation "measure (\<lambda>n. n)") auto

declare nat_digits.simps [simp del]

text \<open>
  \<^verbatim>\<open>Number.prototype.toString\<close> on an integer of magnitude below 1e21: the decimal
  digits, after a minus sign when the number is negative.
\<close>

definition toString :: "int \<Rightarrow> string" where
  "toString v = (if v < 0 then CHR ''-'' # nat_digits (nat (- v)) else nat_digits (nat v))"

text \<open>
  \<^verbatim>\<open>String.prototype.padStart\<close>: a string already of the target length or longer, or
  an empty filler, gives the string back; otherwise the filler is repeated and cut to
  the missing length, and put in front.
\<close>

definition padStart :: "nat \<Rightarrow> string \<Rightarrow> string \<Rightarrow> string" where
  "padStart targetLength padString s =
     (if targetLength \<le> length s \<or> padString = [] then s
      else take (targetLength - length s)
             (concat (replicate (targetLength - length s) padString)) @ s)"

definition format :: "int \<Rightarrow> string" where
  "format v = padStart 2 ''0'' (toString v)"

subsection \<open>The page and the timer\<close>

text \<open>
  The four elements whose text the function sets, the container whose content it
  replaces, and the registration of the interval timer with the host. The field
  \<open>effects\<close> records, oldest first, what the script has done to the page and the
  timer.
\<close>

datatype slot = Days | Hours | Minutes | Seconds

datatype effect = SetText slot string | ClearInterval | SetInnerHTML string

record page =
  textContent :: "slot \<Rightarrow> string"
  countdown_boxes :: string
  countdownTimer :: bool
  effects :: "effect list"

definition set_textContent :: "slot \<Rightarrow> string \<Rightarrow> page \<Rightarrow> page" where
  "set_textContent e v p =
     p\<lparr>textContent := (textContent p)(e := v), effects := effects p @ [SetText e v]\<rparr>"

definition clearInterval :: "page \<Rightarrow> page" where
  "clearInterval p = p\<lparr>countdownTimer := False, effects := effects p @ [ClearInterval]\<rparr>"

definition set_innerHTML :: "string \<Rightarrow> page \<Rightarrow> page" where
  "set_innerHTML h p = p\<lparr>countdown_boxes := h, effects := effects p @ [SetInnerHTML h]\<rparr>"

definition terminal_message :: string where
  "terminal_message = ''<div class='' @ [CHR 0x27] @ ''time-box'' @ [CHR 0x27]
     @ ''><span>The Renaissance has begun!</span></div>''"

text \<open>The function, statement by statement, with the clock reading as an argument.\<close>

definition updateCountdown :: "int \<Rightarrow> int \<Rightarrow> page \<Rightarrow> page" where
  "updateCountdown countdownDate now p =
     (let d = distance countdownDate now;
          p1 = set_textContent Days (format (days d)) p;
          p2 = set_textContent Hours (format (hours d)) p1;
          p3 = set_textContent Minutes (format (minutes d)) p2;
          p4 = set_textContent Seconds (format (seconds d)) p3
      in if d < 0 then set_innerHTML terminal_message (clearInterval p4) else p4)"

text \<open>
  The host calls the function at an instant only while the interval is registered:
  after \<^verbatim>\<open>clearInterval\<close> the callback is not run again.
\<close>

definition timer_fires :: "int \<Rightarrow> int \<Rightarrow> page \<Rightarrow> page" where
  "timer_fires countdownDate now p =
     (if countdownTimer p then updateCountdown countdownDate now p else p)"

fun run_ticks :: "int \<Rightarrow> int list \<Rightarrow> page \<Rightarrow> page" where
  "run_ticks countdownDate [] p = p"
| "run_ticks countdownDate (now # later) p =
     run_ticks countdownDate later (timer_fires countdownDate now p)"

text \<open>
  Lines 41 and 42: the interval is registered, the function is called at once, and
  from then on the host offers the ticks. The page starts with no effect recorded.
\<close>

definition script :: "int \<Rightarrow> int \<Rightarrow> int list \<Rightarrow> page \<Rightarrow> page" where
  "script countdownDate now0 ticks p =
     run_ticks countdownDate ticks
       (updateCountdown countdownDate now0 (p\<lparr>countdownTimer := True, effects := []\<rparr>))"

text \<open>How often the container has been replaced, and a page to evaluate on.\<close>

fun is_SetInnerHTML :: "effect \<Rightarrow> bool" where
  "is_SetInnerHTML (SetInnerHTML h) = True"
| "is_SetInnerHTML _ = False"

definition replacements :: "page \<Rightarrow> nat" where
  "replacements p = length (filter is_SetInnerHTML (effects p))"

definition loaded_page :: page where
  "loaded_page = \<lparr>textContent = (\<lambda>e. ''00''), countdown_boxes = ''boxes'',
     countdownTimer = False, effects = []\<rparr>"

section \<open>Properties of the remaining time\<close>

subsection \<open>The quotients as integer division\<close>

lemma floor_quotient: "Math_floor (of_int a / of_int b) = a div b"
  by (simp add: Math_floor_def floor_divide_of_int_eq)

lemma unit_divs:
  "days d = d div 86400000"
  "hours d = js_rem d 86400000 div 3600000"
  "minutes d = js_rem d 3600000 div 60000"
  "seconds d = js_rem d 60000 div 1000"
  using floor_quotient[of d 86400000] floor_quotient[of "js_rem d 86400000" 3600000]
    floor_quotient[of "js_rem d 3600000" 60000] floor_quotient[of "js_rem d 60000" 1000]
  by (simp_all add: days_def hours_def minutes_def seconds_def)

lemma js_rem_nonneg: "0 \<le> a \<Longrightarrow> js_rem a b = a mod \<bar>b\<bar>"
  by (cases "a = 0") (simp_all add: js_rem_def)

lemma js_rem_neg: "a < 0 \<Longrightarrow> js_rem a b = - ((- a) mod \<bar>b\<bar>)"
  by (simp add: js_rem_def)

lemma js_rem_nonpos: "a < 0 \<Longrightarrow> js_rem a b \<le> 0"
  by (cases "b = 0") (simp_all add: js_rem_neg)

lemma unit_ranges:
  assumes "0 \<le> d"
  shows "0 \<le> days d" "0 \<le> hours d" "hours d \<le> 23" "0 \<le> minutes d" "minutes d \<le> 59"
    "0 \<le> seconds d" "seconds d \<le> 59"
  using assms by (simp_all add: unit_divs js_rem_nonneg pos_imp_zdiv_nonneg_iff)

lemma div_of_mod_prod:
  "0 < b \<Longrightarrow> 0 < c \<Longrightarrow> (a mod (b * c)) div b = (a div b) mod (c::int)"
  by (simp add: zmod_zmult2_eq)

lemma seconds_alt: "0 \<le> d \<Longrightarrow> seconds d = (d div 1000) mod 60"
  using div_of_mod_prod[of 1000 60 d] by (simp add: unit_divs js_rem_nonneg)

subsection \<open>Before the target\<close>

text \<open>
  Claim C1. For every pair of instants with \<open>now < target\<close>, the computation of the
  remaining time reports that the countdown has not expired, and its four unit values
  are non-negative, with the hours at most 23 and the minutes and seconds at most 59.
\<close>

theorem remaining_before_target:
  "now < target \<Longrightarrow>
     \<not> expired (distance target now) \<and>
     0 \<le> days (distance target now) \<and>
     0 \<le> hours (distance target now) \<and> hours (distance target now) \<le> 23 \<and>
     0 \<le> minutes (distance target now) \<and> minutes (distance target now) \<le> 59 \<and>
     0 \<le> seconds (distance target now) \<and> seconds (distance target now) \<le> 59"
  using unit_ranges[of "distance target now"]
  by (simp add: distance_def expired_def)

theorem remaining_before_target_witness:
  "(1000::int) < 360000000 \<and>
     \<not> expired (distance 360000000 1000) \<and>
     0 \<le> days (distance 360000000 1000) \<and>
     0 \<le> hours (distance 360000000 1000) \<and> hours (distance 360000000 1000) \<le> 23 \<and>
     0 \<le> minutes (distance 360000000 1000) \<and> minutes (distance 360000000 1000) \<le> 59 \<and>
     0 \<le> seconds (distance 360000000 1000) \<and> seconds (distance 360000000 1000) \<le> 59"
  using remaining_before_target[of 1000 360000000] by simp

subsection \<open>At and after the target\<close>

text \<open>
  Claim C3, as the code has it. For every pair of instants with \<open>target < now\<close>, the
  computation reports that the countdown has expired. (At \<open>now = target\<close> it does
  not: the test of line 34 is a strict one.)
\<close>

theorem expired_after_target:
  "target < now \<Longrightarrow> expired (distance target now)"
  by (simp add: distance_def expired_def)

theorem expired_after_target_witness:
  "(1735689599000::int) < 1735689599001 \<and> expired (distance 1735689599000 1735689599001)"
  using expired_after_target[of 1735689599000 1735689599001] by simp

theorem expired_at_target_counterexample:
  "(1735689599000::int) \<le> 1735689599000 \<and> \<not> expired (distance 1735689599000 1735689599000)"
  by (simp add: distance_def expired_def)

text \<open>
  Claim C4. At \<open>now = target\<close> the distance is 0, the four unit values are 0, and the
  countdown has not expired: only a distance below zero ends it.
\<close>

theorem remaining_at_target:
  "distance target target = 0 \<and>
   days (distance target target) = 0 \<and> hours (distance target target) = 0 \<and>
   minutes (distance target target) = 0 \<and> seconds (distance target target) = 0 \<and>
   \<not> expired (distance target target)"
  by (simp add: distance_def unit_divs js_rem_def expired_def)

text \<open>
  Claim C7. For every negative distance the countdown has expired and the four unit
  values are negative or zero, never positive; nothing clamps them: the days are
  below zero.
\<close>

theorem units_of_negative_distance:
  "d < 0 \<Longrightarrow>
     expired d \<and> days d < 0 \<and> hours d \<le> 0 \<and> minutes d \<le> 0 \<and> seconds d \<le> 0"
  by (simp add: expired_def unit_divs js_rem_nonpos div_neg_pos_less0 div_nonpos_pos_le0)

theorem units_of_negative_distance_witness:
  "(- 1 :: int) < 0 \<and> expired (- 1) \<and> days (- 1) = - 1 \<and> hours (- 1) = - 1 \<and>
     minutes (- 1) = - 1 \<and> seconds (- 1) = - 1"
  using units_of_negative_distance[of "- 1"]
  by (simp add: unit_divs js_rem_def)

subsection \<open>Scenarios and decomposition\<close>

text \<open>
  Claim C8. With the target 90,061,001 milliseconds after \<open>now\<close>, the computation
  gives one day, one hour, one minute and one second.
\<close>

theorem scenario_one_of_each:
  "distance (now + 90061001) now = 90061001 \<and>
   days (distance (now + 90061001) now) = 1 \<and> hours (distance (now + 90061001) now) = 1 \<and>
   minutes (distance (now + 90061001) now) = 1 \<and> seconds (distance (now + 90061001) now) = 1"
  by (simp add: distance_def unit_divs js_rem_def)

text \<open>
  Claim C9. Of two computations 1000 milliseconds apart, both with a non-negative
  distance, the later one has the seconds of the earlier one minus 1, modulo 60.
\<close>

theorem seconds_one_tick_later:
  "0 \<le> distance countdownDate now \<Longrightarrow> 0 \<le> distance countdownDate (now + 1000) \<Longrightarrow>
     seconds (distance countdownDate (now + 1000)) =
       (seconds (distance countdownDate now) - 1) mod 60"
proof -
  assume earlier: "0 \<le> distance countdownDate now"
    and later: "0 \<le> distance countdownDate (now + 1000)"
  have step: "distance countdownDate (now + 1000) = distance countdownDate now - 1000"
    by (simp add: distance_def)
  have "(distance countdownDate now - 1000) div 1000 = distance countdownDate now div 1000 - 1"
    using div_add_self2[of 1000 "distance countdownDate now - 1000"] by simp
  then show ?thesis
    using earlier later by (simp add: seconds_alt step mod_diff_left_eq)
qed

theorem seconds_one_tick_later_witness:
  "0 \<le> distance 120500 0 \<and> 0 \<le> distance 120500 (0 + 1000) \<and>
     seconds (distance 120500 0) = 0 \<and> seconds (distance 120500 (0 + 1000)) = 59 \<and>
     seconds (distance 120500 (0 + 1000)) = (seconds (distance 120500 0) - 1) mod 60"
  using seconds_one_tick_later[of 120500 0]
  by (simp add: distance_def unit_divs js_rem_def)

text \<open>
  Claim C10. For every non-negative distance the four unit values decompose it down
  to whole seconds: days, hours, minutes and seconds, each times its length in
  milliseconds, add up to the distance less its remainder modulo 1000.
\<close>

theorem units_decompose_distance:
  assumes "0 \<le> d"
  shows "days d * 86400000 + hours d * 3600000 + minutes d * 60000 + seconds d * 1000
           = d - d mod 1000"
proof -
  have dd: "days d * 86400000 + d mod 86400000 = d"
    by (simp add: unit_divs)
  have hh: "hours d * 3600000 + d mod 3600000 = d mod 86400000"
    using div_mult_mod_eq[of "d mod 86400000" 3600000] mod_mod_cancel[of 3600000 86400000 d] assms
    by (simp add: unit_divs js_rem_nonneg)
  have mm: "minutes d * 60000 + d mod 60000 = d mod 3600000"
    using div_mult_mod_eq[of "d mod 3600000" 60000] mod_mod_cancel[of 60000 3600000 d] assms
    by (simp add: unit_divs js_rem_nonneg)
  have ss: "seconds d * 1000 + d mod 1000 = d mod 60000"
    using div_mult_mod_eq[of "d mod 60000" 1000] mod_mod_cancel[of 1000 60000 d] assms
    by (simp add: unit_divs js_rem_nonneg)
  from dd hh mm ss show ?thesis by linarith
qed

theorem units_decompose_distance_witness:
  "(0::int) \<le> 90061001 \<and>
     days 90061001 * 86400000 + hours 90061001 * 3600000 + minutes 90061001 * 60000
       + seconds 90061001 * 1000 = 90061001 - 90061001 mod 1000 \<and>
     days 90061001 * 86400000 + hours 90061001 * 3600000 + minutes 90061001 * 60000
       + seconds 90061001 * 1000 = (90061000::int)"
  using units_decompose_distance[of 90061001] by simp

section \<open>Properties of the formatting\<close>

lemma nat_digits_small: "n < 10 \<Longrightarrow> nat_digits n = [digit_char n]"
  by (simp add: nat_digits.simps)

lemma nat_digits_large:
  "10 \<le> n \<Longrightarrow> nat_digits n = nat_digits (n div 10) @ [digit_char (n mod 10)]"
  by (subst nat_digits.simps) simp

lemma nat_digits_nonempty: "1 \<le> length (nat_digits n)"
  by (cases "n < 10") (simp_all add: nat_digits_small nat_digits_large)

lemma nat_digits_two: "10 \<le> n \<Longrightarrow> 2 \<le> length (nat_digits n)"
  using nat_digits_nonempty[of "n div 10"] by (simp add: nat_digits_large)

lemma nat_digits_exactly_two: "10 \<le> n \<Longrightarrow> n \<le> 99 \<Longrightarrow> length (nat_digits n) = 2"
  by (simp add: nat_digits_large nat_digits_small)

lemma nat_digits_three: "100 \<le> n \<Longrightarrow> 3 \<le> length (nat_digits n)"
  using nat_digits_two[of "n div 10"] by (simp add: nat_digits_large)

lemma padStart_short: "length s = 1 \<Longrightarrow> padStart 2 ''0'' s = CHR ''0'' # s"
  by (simp add: padStart_def)

lemma padStart_long: "2 \<le> length s \<Longrightarrow> padStart 2 ''0'' s = s"
  by (simp add: padStart_def)

lemma toString_nonneg: "0 \<le> v \<Longrightarrow> toString v = nat_digits (nat v)"
  by (simp add: toString_def)

lemma toString_neg_length: "v < 0 \<Longrightarrow> 2 \<le> length (toString v)"
  using nat_digits_nonempty[of "nat (- v)"] by (simp add: toString_def)

lemma format_cases:
  "format v = (if 0 \<le> v \<and> v \<le> 9 then CHR ''0'' # toString v else toString v)"
proof (cases "v < 0")
  case True
  then show ?thesis
    using toString_neg_length[of v] by (simp add: format_def padStart_long)
next
  case nonneg: False
  show ?thesis
  proof (cases "v \<le> 9")
    case True
    with nonneg have "nat v < 10" by simp
    then have "length (toString v) = 1"
      using nonneg by (simp add: toString_nonneg nat_digits_small)
    then show ?thesis
      using True nonneg by (simp add: format_def padStart_short)
  next
    case False
    then have "10 \<le> nat v" by simp
    then have "2 \<le> length (toString v)"
      using False by (simp add: toString_nonneg nat_digits_two)
    then show ?thesis
      using False by (simp add: format_def padStart_long)
  qed
qed

lemma format_length:
  "2 \<le> length (format v)"
  "0 \<le> v \<Longrightarrow> v \<le> 99 \<Longrightarrow> length (format v) = 2"
  "100 \<le> v \<Longrightarrow> 3 \<le> length (format v)"
proof -
  show "2 \<le> length (format v)"
    using nat_digits_nonempty[of "nat v"] nat_digits_two[of "nat v"] toString_neg_length[of v]
    by (cases "v < 0") (auto simp add: format_cases toString_nonneg)
  show "length (format v) = 2" if "0 \<le> v" "v \<le> 99"
    using that nat_digits_exactly_two[of "nat v"]
    by (cases "v \<le> 9") (simp_all add: format_cases toString_nonneg nat_digits_small)
  show "3 \<le> length (format v)" if "100 \<le> v"
    using that nat_digits_three[of "nat v"] by (simp add: format_cases toString_nonneg)
qed

text \<open>
  Claim C6, as the code has it. For every unit value the formatting gives the decimal
  representation of the value, padded on the left with a zero to at least two
  characters: a value from 0 to 9 gives a zero and its digit, and any other value
  gives its plain decimal representation, which has two characters up to 99 and three
  or more from 100 on (the days of a countdown of a hundred days or more).
\<close>

theorem format_pads_to_two_at_least:
  "format v = (if 0 \<le> v \<and> v \<le> 9 then [CHR ''0'', digit_char (nat v)] else toString v) \<and>
   2 \<le> length (format v) \<and>
   (0 \<le> v \<and> v \<le> 99 \<longrightarrow> length (format v) = 2) \<and>
   (100 \<le> v \<longrightarrow> 3 \<le> length (format v))"
proof -
  have "toString v = [digit_char (nat v)]" if "0 \<le> v" "v \<le> 9"
  proof -
    from that have "nat v < 10" by simp
    then show ?thesis
      using that by (simp add: toString_nonneg nat_digits_small)
  qed
  then have "format v =
      (if 0 \<le> v \<and> v \<le> 9 then [CHR ''0'', digit_char (nat v)] else toString v)"
    by (simp add: format_cases)
  then show ?thesis
    using format_length[of v] by blast
qed

theorem format_pads_to_two_at_least_witness:
  "format 7 = ''07'' \<and> format 23 = ''23'' \<and> format 121 = ''121'' \<and>
   (0::int) \<le> 23 \<and> (23::int) \<le> 99 \<and> length (format 23) = 2 \<and>
   (100::int) \<le> 121 \<and> 3 \<le> length (format 121)"
  using format_pads_to_two_at_least[of 7] format_pads_to_two_at_least[of 23]
    format_pads_to_two_at_least[of 121]
  by (simp add: toString_def nat_digits.simps digit_char_def)

theorem format_three_characters_counterexample:
  "format 100 = ''100'' \<and> length (format 100) \<noteq> 2"
  by (simp add: format_cases toString_def nat_digits.simps digit_char_def)

section \<open>Properties of the ticks\<close>

subsection \<open>One call of the function\<close>

lemma updateCountdown_effects:
  "effects (updateCountdown cd now p) =
     effects p @ [SetText Days (format (days (distance cd now))),
       SetText Hours (format (hours (distance cd now))),
       SetText Minutes (format (minutes (distance cd now))),
       SetText Seconds (format (seconds (distance cd now)))]
     @ (if expired (distance cd now) then [ClearInterval, SetInnerHTML terminal_message] else [])"
  by (simp add: updateCountdown_def Let_def set_textContent_def clearInterval_def
      set_innerHTML_def expired_def)

lemma updateCountdown_textContent:
  "textContent (updateCountdown cd now p) Days = format (days (distance cd now))"
  "textContent (updateCountdown cd now p) Hours = format (hours (distance cd now))"
  "textContent (updateCountdown cd now p) Minutes = format (minutes (distance cd now))"
  "textContent (updateCountdown cd now p) Seconds = format (seconds (distance cd now))"
  by (simp_all add: updateCountdown_def Let_def set_textContent_def clearInterval_def
      set_innerHTML_def)

lemma updateCountdown_timer:
  "countdownTimer (updateCountdown cd now p) = (countdownTimer p \<and> \<not> expired (distance cd now))"
  by (simp add: updateCountdown_def Let_def set_textContent_def clearInterval_def
      set_innerHTML_def expired_def)

lemma updateCountdown_boxes:
  "countdown_boxes (updateCountdown cd now p) =
     (if expired (distance cd now) then terminal_message else countdown_boxes p)"
  by (simp add: updateCountdown_def Let_def set_textContent_def clearInterval_def
      set_innerHTML_def expired_def)

lemma updateCountdown_replacements:
  "replacements (updateCountdown cd now p) =
     replacements p + (if expired (distance cd now) then 1 else 0)"
  by (simp add: replacements_def updateCountdown_effects)

text \<open>
  Claim C2, as the code has it. Every call writes the four formatted unit values into
  the four elements, before the test of line 34 and whether or not the countdown has
  expired. On a call where it has not expired, nothing else is done, and the values
  written are non-negative and in their ranges: hours at most 23, minutes and seconds
  at most 59, days unbounded. On the call where it has expired, the writes are
  followed by the cancellation of the timer and the replacement of the container.
\<close>

theorem slots_written_on_every_call:
  "textContent (updateCountdown cd now p) Days = format (days (distance cd now)) \<and>
   textContent (updateCountdown cd now p) Hours = format (hours (distance cd now)) \<and>
   textContent (updateCountdown cd now p) Minutes = format (minutes (distance cd now)) \<and>
   textContent (updateCountdown cd now p) Seconds = format (seconds (distance cd now)) \<and>
   effects (updateCountdown cd now p) =
     effects p @ [SetText Days (format (days (distance cd now))),
       SetText Hours (format (hours (distance cd now))),
       SetText Minutes (format (minutes (distance cd now))),
       SetText Seconds (format (seconds (distance cd now)))]
     @ (if expired (distance cd now) then [ClearInterval, SetInnerHTML terminal_message] else []) \<and>
   (\<not> expired (distance cd now) \<longrightarrow>
      0 \<le> days (distance cd now) \<and>
      0 \<le> hours (distance cd now) \<and> hours (distance cd now) \<le> 23 \<and>
      0 \<le> minutes (distance cd now) \<and> minutes (distance cd now) \<le> 59 \<and>
      0 \<le> seconds (distance cd now) \<and> seconds (distance cd now) \<le> 59)"
proof -
  have "0 \<le> distance cd now" if "\<not> expired (distance cd now)"
    using that by (simp add: expired_def)
  from unit_ranges[OF this] show ?thesis
    by (simp add: updateCountdown_textContent updateCountdown_effects)
qed

theorem slots_written_on_every_call_witness:
  "\<not> expired (distance 90061001 0) \<and>
   textContent (updateCountdown 90061001 0 loaded_page) Days = ''01'' \<and>
   textContent (updateCountdown 90061001 0 loaded_page) Hours = ''01'' \<and>
   textContent (updateCountdown 90061001 0 loaded_page) Minutes = ''01'' \<and>
   textContent (updateCountdown 90061001 0 loaded_page) Seconds = ''01'' \<and>
   effects (updateCountdown 90061001 0 loaded_page) =
     [SetText Days ''01'', SetText Hours ''01'', SetText Minutes ''01'', SetText Seconds ''01'']"
  using slots_written_on_every_call[of 90061001 0 loaded_page]
  by (simp add: distance_def expired_def unit_divs js_rem_def loaded_page_def
      format_cases toString_def nat_digits.simps digit_char_def)

theorem slots_written_when_expired_counterexample:
  "expired (distance 1735689599000 1735689599001) \<and>
   textContent (updateCountdown 1735689599000 1735689599001 loaded_page) Seconds = ''-1'' \<and>
   effects (updateCountdown 1735689599000 1735689599001 loaded_page) =
     [SetText Days ''-1'', SetText Hours ''-1'', SetText Minutes ''-1'', SetText Seconds ''-1'',
      ClearInterval, SetInnerHTML terminal_message]"
  by (simp add: updateCountdown_textContent updateCountdown_effects distance_def expired_def
      unit_divs js_rem_def loaded_page_def format_cases toString_def nat_digits.simps
      digit_char_def)

subsection \<open>The run of the script\<close>

lemma run_ticks_stopped: "\<not> countdownTimer p \<Longrightarrow> run_ticks cd ticks p = p"
  by (induction ticks) (simp_all add: timer_fires_def)

lemma run_ticks_append: "run_ticks cd (xs @ ys) p = run_ticks cd ys (run_ticks cd xs p)"
  by (induction xs arbitrary: p) simp_all

lemma run_ticks_summary:
  "countdownTimer p \<Longrightarrow>
     countdownTimer (run_ticks cd ts p) = (\<not> (\<exists>u\<in>set ts. expired (distance cd u))) \<and>
     replacements (run_ticks cd ts p) =
       replacements p + (if \<exists>u\<in>set ts. expired (distance cd u) then 1 else 0) \<and>
     countdown_boxes (run_ticks cd ts p) =
       (if \<exists>u\<in>set ts. expired (distance cd u) then terminal_message else countdown_boxes p)"
proof (induction ts arbitrary: p)
  case Nil
  then show ?case by simp
next
  case (Cons t ts)
  show ?case
  proof (cases "expired (distance cd t)")
    case True
    then have "\<not> countdownTimer (updateCountdown cd t p)"
      by (simp add: updateCountdown_timer)
    then have "run_ticks cd (t # ts) p = updateCountdown cd t p"
      using Cons.prems by (simp add: timer_fires_def run_ticks_stopped)
    then show ?thesis
      using True Cons.prems
      by (simp add: updateCountdown_timer updateCountdown_boxes updateCountdown_replacements)
  next
    case False
    then have "countdownTimer (updateCountdown cd t p)"
      using Cons.prems by (simp add: updateCountdown_timer)
    from Cons.IH[OF this] show ?thesis
      using False Cons.prems
      by (simp add: timer_fires_def updateCountdown_boxes updateCountdown_replacements)
  qed
qed

lemma script_as_ticks:
  "script cd now0 ticks p =
     run_ticks cd (now0 # ticks) (p\<lparr>countdownTimer := True, effects := []\<rparr>)"
  by (simp add: script_def timer_fires_def)

text \<open>
  Claim C5. The countdown goes from running to finished once and for good. After the
  first call and any ticks, the timer is still registered exactly when none of these
  instants was an expired one; the container has been replaced once if one was, and
  never otherwise, and then holds the terminal message; and once one was, whatever
  ticks the host offers later leave the page as it is: no call runs, nothing is
  written to the four elements, and the timer is not registered again.
\<close>

theorem finished_once_and_for_good:
  "countdownTimer (script cd now0 ticks p) =
     (\<not> (\<exists>u\<in>set (now0 # ticks). expired (distance cd u))) \<and>
   replacements (script cd now0 ticks p) =
     (if \<exists>u\<in>set (now0 # ticks). expired (distance cd u) then 1 else 0) \<and>
   countdown_boxes (script cd now0 ticks p) =
     (if \<exists>u\<in>set (now0 # ticks). expired (distance cd u) then terminal_message
      else countdown_boxes p) \<and>
   ((\<exists>u\<in>set (now0 # ticks). expired (distance cd u)) \<longrightarrow>
      script cd now0 (ticks @ later) p = script cd now0 ticks p)"
proof -
  let ?p0 = "p\<lparr>countdownTimer := True, effects := []\<rparr>"
  have registered: "countdownTimer ?p0" by simp
  have nothing_later: "script cd now0 (ticks @ later) p = script cd now0 ticks p"
    if "\<exists>u\<in>set (now0 # ticks). expired (distance cd u)"
  proof -
    have "\<not> countdownTimer (run_ticks cd (now0 # ticks) ?p0)"
      using run_ticks_summary[OF registered, of cd "now0 # ticks"] that by simp
    then have "run_ticks cd later (run_ticks cd (now0 # ticks) ?p0)
        = run_ticks cd (now0 # ticks) ?p0"
      by (rule run_ticks_stopped)
    then show ?thesis
      using run_ticks_append[of cd "now0 # ticks" later ?p0] by (simp add: script_as_ticks)
  qed
  show ?thesis
    using run_ticks_summary[OF registered, of cd "now0 # ticks"] nothing_later
    by (simp add: script_as_ticks replacements_def)
qed

theorem finished_once_and_for_good_witness:
  "(\<exists>u\<in>set (0 # [1000, 2000, 3000]). expired (distance 2500 u)) \<and>
   \<not> countdownTimer (script 2500 0 [1000, 2000, 3000] loaded_page) \<and>
   replacements (script 2500 0 [1000, 2000, 3000] loaded_page) = 1 \<and>
   countdown_boxes (script 2500 0 [1000, 2000, 3000] loaded_page) = terminal_message \<and>
   script 2500 0 ([1000, 2000, 3000] @ [4000, 5000]) loaded_page =
     script 2500 0 [1000, 2000, 3000] loaded_page"
  using finished_once_and_for_good[of 2500 0 "[1000, 2000, 3000]" loaded_page "[4000, 5000]"]
  by (simp add: distance_def expired_def)

end
